theory Spec2Isabelle
  imports Main "HOL-Library.DAList" "HOL-Library.Multiset"
begin

section \<open>The coordinator swap-quote consumer of asset-swapper\<close>

text \<open>
  A shallow embedding of
  \<^verbatim>\<open>packages/asset-swapper/src/quote_consumers/coordinator_swap_quote_consumer.ts\<close>.
  Promises are modelled by their settled value: a rejected promise (a \<^verbatim>\<open>throw\<close>) is
  \<open>Inl\<close> of an exception, a fulfilled one is \<open>Inr\<close> of its value. Calls that leave the
  process (requests to coordinator servers, the signer of the provider) are recorded in a
  list that the model returns beside the result.
\<close>

subsection \<open>Data\<close>

text \<open>
  \<^verbatim>\<open>ZeroExTransaction\<close> and \<^verbatim>\<open>SignedZeroExTransaction\<close> of \<^verbatim>\<open>@0x/types\<close>, with the fields the
  source writes (lines 198--203 and 229--232). \<^verbatim>\<open>{...transaction, signature}\<close> is the
  record extension.
\<close>

record ZeroExTransaction =
  salt :: int
  signerAddress :: string
  data :: string
  verifyingContractAddress :: string

record SignedZeroExTransaction = ZeroExTransaction +
  signature :: string

text \<open>
  \<^verbatim>\<open>SignedOrder\<close>: the source reads \<^verbatim>\<open>senderAddress\<close> and \<^verbatim>\<open>signature\<close> only; every other
  field of an order lives in the record's extension slot, so all functions below are
  stated for \<open>'a SignedOrder_scheme\<close>.
\<close>

record SignedOrder =
  senderAddress :: string
  signature :: string

text \<open>
  The value found in the \<^verbatim>\<open>expirationTimeSeconds\<close> field of a server's JSON answer. The
  declared type is a single \<^verbatim>\<open>BigNumber\<close>; at run time the field holds whatever the server
  sent, a number or an array.
\<close>

datatype jsvalue = BigNumber int | Array "jsvalue list"

text \<open>
  \<^verbatim>\<open>CoordinatorServerApprovalRawResponse\<close> (\<open>'e = jsvalue\<close>) and
  \<^verbatim>\<open>CoordinatorServerApprovalResponse\<close> (\<open>'e = jsvalue list\<close>) have the same two fields.
\<close>

record 'e approval =
  signatures :: "string list"
  expirationTimeSeconds :: 'e

type_synonym CoordinatorServerApprovalRawResponse = "jsvalue approval"
type_synonym CoordinatorServerApprovalResponse = "jsvalue list approval"

text \<open>
  \<^verbatim>\<open>CoordinatorServerResponse\<close>: the source reads \<^verbatim>\<open>isError\<close>, \<^verbatim>\<open>body\<close> and
  \<^verbatim>\<open>coordinatorOperator\<close>; the other fields of a response live in the extension slot.
  \<open>body = None\<close> stands for a body that is \<^verbatim>\<open>undefined\<close>.
\<close>

record CoordinatorServerResponse =
  isError :: bool
  body :: "CoordinatorServerApprovalRawResponse option"
  coordinatorOperator :: string

text \<open>
  An element of \<^verbatim>\<open>errorsWithOrders\<close> (lines 512--519), \<^verbatim>\<open>{...resp, orders}\<close>: all the
  fields of the refusing response, and the value of \<^verbatim>\<open>serverEndpointsToOrders[endpoint]\<close>
  (\<open>None\<close> is \<^verbatim>\<open>undefined\<close>, the value of a missing key).
\<close>

record ('r, 'o) CoordinatorServerErrorWithOrders =
  response :: 'r
  orders :: "'o list option"

text \<open>Of the enum \<^verbatim>\<open>CoordinatorServerErrorMsg\<close> the source names the member \<^verbatim>\<open>FillFailed\<close> only.\<close>

datatype CoordinatorServerErrorMsg = FillFailed

text \<open>
  The element type of the cancellations list; its declaration is not in the sources at hand
  and the source builds the empty list only (line 522).
\<close>

typedecl CoordinatorServerCancellationResponse

text \<open>
  What \<^verbatim>\<open>_getCoordinatorApprovalsAsync\<close> can throw: the \<^verbatim>\<open>CoordinatorServerError\<close> of
  line 523 with its four constructor arguments, or the \<^verbatim>\<open>TypeError\<close> of the run time when
  \<^verbatim>\<open>formatRawResponse\<close> reads \<^verbatim>\<open>rawResponse.signatures\<close> of an \<^verbatim>\<open>undefined\<close> body. The
  approved orders are a list of \<open>'o option\<close>: an array slot holds an order or \<^verbatim>\<open>undefined\<close>.
\<close>

datatype ('r, 'o) approvals_exception =
    CoordinatorServerError
      CoordinatorServerErrorMsg
      "'o option list"
      "CoordinatorServerCancellationResponse list"
      "('r, 'o) CoordinatorServerErrorWithOrders list"
  | TypeError string

record ApprovalsResult =
  coordinatorApprovalSignatures :: "string list"
  coordinatorExpirationTimes :: "jsvalue list"
  signedZeroExTransaction :: SignedZeroExTransaction

text \<open>
  \<^verbatim>\<open>this._contractWrappers.coordinator\<close>. Its class is not part of the sources at hand, so
  the two private methods the consumer calls are parameters: any function of the right type.
  \<^verbatim>\<open>_mapServerEndpointsToOrdersAsync\<close> returns a JavaScript object whose keys are endpoints: an
  association list with distinct keys, in insertion order (the order of \<^verbatim>\<open>Object.keys\<close>).
  \<^verbatim>\<open>_executeServerRequestAsync\<close> is the answer of the server behind an endpoint. Within one
  call of the aggregator the answers are a function of the request: the loop asks each key
  of the object once, and the keys of an object are distinct. Both methods are taken to
  return a value; what they may throw is not in the sources at hand.
\<close>

record ('a, 'b) CoordinatorWrapper =
  address :: string
  mapServerEndpointsToOrdersAsync ::
    "'a SignedOrder_scheme list \<Rightarrow> (string, 'a SignedOrder_scheme list) alist"
  executeServerRequestAsync ::
    "SignedZeroExTransaction \<Rightarrow> string \<Rightarrow> string \<Rightarrow> 'b CoordinatorServerResponse_scheme"

type_synonym ServerRequest = "SignedZeroExTransaction \<times> string \<times> string"

subsection \<open>JavaScript and lodash primitives\<close>

definition Object_keys :: "('k, 'v) alist \<Rightarrow> 'k list" where
  "Object_keys obj = map fst (DAList.impl_of obj)"

text \<open>
  lodash \<^verbatim>\<open>flatten\<close> flattens one level: an element that is an array (\<open>Inl\<close>) is spread,
  any other element (\<open>Inr\<close>) is kept.
\<close>

fun flatten :: "('a list + 'a) list \<Rightarrow> 'a list" where
  "flatten [] = []"
| "flatten (Inl xs # rest) = xs @ flatten rest"
| "flatten (Inr x # rest) = x # flatten rest"

text \<open>
  The elements of \<^verbatim>\<open>approvedOrdersNested.concat(notCoordinatorOrders)\<close> (line 509):
  \<^verbatim>\<open>Array.prototype.concat\<close> keeps the elements of \<^verbatim>\<open>approvedOrdersNested\<close> (an array of
  orders, or \<^verbatim>\<open>undefined\<close>) and appends the elements of its argument (orders).
\<close>

fun nestedElement :: "'o list option \<Rightarrow> 'o option list + 'o option" where
  "nestedElement (Some os) = Inl (map Some os)"
| "nestedElement None = Inr None"

definition concatNested :: "'o list option list \<Rightarrow> 'o list \<Rightarrow> ('o option list + 'o option) list" where
  "concatNested nested xs = map nestedElement nested @ map (\<lambda>x. Inr (Some x)) xs"

subsection \<open>\<^verbatim>\<open>_getCoordinatorApprovalsAsync\<close> (lines 450--530)\<close>

definition coordinatorOrders ::
  "('a, 'b) CoordinatorWrapper \<Rightarrow> 'a SignedOrder_scheme list \<Rightarrow> 'a SignedOrder_scheme list" where
  "coordinatorOrders coordinator signedOrders =
     filter (\<lambda>ord. senderAddress ord = address coordinator) signedOrders"

definition notCoordinatorOrders ::
  "('a, 'b) CoordinatorWrapper \<Rightarrow> 'a SignedOrder_scheme list \<Rightarrow> 'a SignedOrder_scheme list" where
  "notCoordinatorOrders coordinator signedOrders =
     filter (\<lambda>ord. senderAddress ord \<noteq> address coordinator) signedOrders"

text \<open>
  The loop of lines 466--474 over the endpoints, with its two accumulators and the list of
  requests sent so far.
\<close>

fun requestLoop ::
  "('a, 'b) CoordinatorWrapper \<Rightarrow> SignedZeroExTransaction \<Rightarrow> string \<Rightarrow> string list \<Rightarrow>
   'b CoordinatorServerResponse_scheme list \<times> 'b CoordinatorServerResponse_scheme list \<times>
     ServerRequest list \<Rightarrow>
   'b CoordinatorServerResponse_scheme list \<times> 'b CoordinatorServerResponse_scheme list \<times>
     ServerRequest list" where
  "requestLoop coordinator tx txOrigin [] acc = acc"
| "requestLoop coordinator tx txOrigin (endpoint # rest) (errorResponses, approvalResponses, sent) =
     (let response = executeServerRequestAsync coordinator tx txOrigin endpoint;
          sent' = sent @ [(tx, txOrigin, endpoint)]
      in if isError response
         then requestLoop coordinator tx txOrigin rest
                (errorResponses @ [response], approvalResponses, sent')
         else requestLoop coordinator tx txOrigin rest
                (errorResponses, approvalResponses @ [response], sent'))"

definition formatRawResponse ::
  "CoordinatorServerApprovalRawResponse \<Rightarrow> CoordinatorServerApprovalResponse" where
  "formatRawResponse rawResponse =
     \<lparr>signatures = [] @ signatures rawResponse,
      expirationTimeSeconds =
        [] @ replicate (length (signatures rawResponse)) (expirationTimeSeconds rawResponse)\<rparr>"

text \<open>
  \<^verbatim>\<open>approvalResponses.map(resp => formatRawResponse(resp.body as ...))\<close> (lines 487--489):
  the cast checks nothing, and the first \<^verbatim>\<open>undefined\<close> body makes \<^verbatim>\<open>formatRawResponse\<close> throw.
\<close>

fun formatAll ::
  "'b CoordinatorServerResponse_scheme list \<Rightarrow>
   ('r, 'o) approvals_exception + CoordinatorServerApprovalResponse list" where
  "formatAll [] = Inr []"
| "formatAll (resp # rest) =
     (case body resp of
        None \<Rightarrow> Inl (TypeError ''Cannot read property signatures of undefined'')
      | Some rawResponse \<Rightarrow>
          (case formatAll rest of
             Inl e \<Rightarrow> Inl e
           | Inr formatted \<Rightarrow> Inr (formatRawResponse rawResponse # formatted)))"

definition getCoordinatorApprovalsAsync ::
  "('a, 'b) CoordinatorWrapper \<Rightarrow> 'a SignedOrder_scheme list \<Rightarrow> SignedZeroExTransaction \<Rightarrow>
   (('b CoordinatorServerResponse_scheme, 'a SignedOrder_scheme) approvals_exception
      + ApprovalsResult) \<times> ServerRequest list" where
  "getCoordinatorApprovalsAsync coordinator signedOrders tx =
     (let serverEndpointsToOrders =
            mapServerEndpointsToOrdersAsync coordinator (coordinatorOrders coordinator signedOrders);
          txOrigin = signerAddress tx;
          (errorResponses, approvalResponses, sent) =
            requestLoop coordinator tx txOrigin (Object_keys serverEndpointsToOrders) ([], [], [])
      in if length errorResponses = 0
         then
           (case formatAll approvalResponses of
              Inl e \<Rightarrow> (Inl e, sent)
            | Inr allApprovals \<Rightarrow>
                (Inr \<lparr>coordinatorApprovalSignatures =
                        flatten (map (\<lambda>a. Inl (signatures a)) allApprovals),
                      coordinatorExpirationTimes =
                        flatten (map (\<lambda>a. Inl (expirationTimeSeconds a)) allApprovals),
                      signedZeroExTransaction = tx\<rparr>,
                 sent))
         else
           (let approvedOrdersNested =
                  map (\<lambda>resp. DAList.lookup serverEndpointsToOrders (coordinatorOperator resp))
                    approvalResponses;
                approvedOrders =
                  flatten (concatNested approvedOrdersNested
                    (notCoordinatorOrders coordinator signedOrders));
                errorsWithOrders =
                  map (\<lambda>resp.
                         \<lparr>response = resp,
                          orders = DAList.lookup serverEndpointsToOrders (coordinatorOperator resp)\<rparr>)
                    errorResponses;
                cancellations = []
            in (Inl (CoordinatorServerError FillFailed approvedOrders cancellations errorsWithOrders),
                sent)))"

subsection \<open>\<^verbatim>\<open>getSmartContractParamsOrThrowAsync\<close> (lines 59--108 and 298--347)\<close>

text \<open>The two copies of the function in the file are the same text; its parameter \<^verbatim>\<open>_opts\<close> is unused.\<close>

datatype MarketOperation = Buy | Sell

text \<open>
  \<^verbatim>\<open>SwapQuote\<close> is the union of \<^verbatim>\<open>MarketBuySwapQuote\<close> and \<^verbatim>\<open>MarketSellSwapQuote\<close>, told apart
  by the field \<^verbatim>\<open>type\<close>; \<^verbatim>\<open>ExchangeSmartContractParams\<close> is the like union of the two
  parameter objects built at lines 77--82 and 88--93. The last argument of each constructor
  is \<^verbatim>\<open>makerAssetFillAmount\<close> (buy) or \<^verbatim>\<open>takerAssetFillAmount\<close> (sell).
\<close>

datatype 'o SwapQuote =
    MarketBuySwapQuote (orders: "'o list") (feeOrders: "'o list") int
  | MarketSellSwapQuote (orders: "'o list") (feeOrders: "'o list") int

fun quote_type :: "'o SwapQuote \<Rightarrow> MarketOperation" where
  "quote_type (MarketBuySwapQuote _ _ _) = Buy"
| "quote_type (MarketSellSwapQuote _ _ _) = Sell"

datatype 'o ExchangeSmartContractParams =
    ExchangeMarketBuySmartContractParams (orders: "'o list") (signatures: "string list") int
  | ExchangeMarketSellSmartContractParams (orders: "'o list") (signatures: "string list") int

record ('o, 'm) SmartContractParamsInfo =
  params :: "'o ExchangeSmartContractParams"
  toAddress :: string
  methodAbi :: 'm

text \<open>Of the enum \<^verbatim>\<open>SignatureType\<close> the source names the member \<^verbatim>\<open>Wallet\<close> only (line 228).\<close>

datatype SignatureType = Wallet

text \<open>
  An \<^verbatim>\<open>Error\<close> thrown by \<^verbatim>\<open>assert.*\<close> for the named variable, or by the signer with its
  message.
\<close>

datatype js_error = AssertionError string | Error string

record SwapQuoteGetOutputOpts =
  takerAddress :: "string option"

text \<open>
  What the consumer reaches through \<^verbatim>\<open>this\<close> and its imports, none of it in the sources at
  hand: the exchange wrapper (address, ABI, the two encoders of call data), the helpers
  \<^verbatim>\<open>assert.isValidSwapQuote\<close>, \<^verbatim>\<open>assert.isETHAddressHex\<close>,
  \<^verbatim>\<open>swapQuoteConsumerUtils.optimizeOrdersForMarketExchangeOperation\<close>,
  \<^verbatim>\<open>utils.getMethodAbiFromContractAbi\<close>, \<^verbatim>\<open>signatureUtils.convertToSignatureWithType\<close>, the
  salt that \<^verbatim>\<open>generatePseudoRandomSalt()\<close> draws in this call, the code the node reports
  for an address, and the signer behind \<^verbatim>\<open>signatureUtils.ecSignTransactionAsync\<close>, which may
  throw. All are parameters.
\<close>

record ('a, 'abi, 'm) Externals =
  exchange_address :: string
  exchange_abi :: 'abi
  marketBuyOrdersNoThrow_getABIEncodedTransactionData ::
    "'a SignedOrder_scheme list \<Rightarrow> int \<Rightarrow> string list \<Rightarrow> string"
  marketSellOrdersNoThrow_getABIEncodedTransactionData ::
    "'a SignedOrder_scheme list \<Rightarrow> int \<Rightarrow> string list \<Rightarrow> string"
  isValidSwapQuote :: "'a SignedOrder_scheme SwapQuote \<Rightarrow> bool"
  isETHAddressHex :: "string \<Rightarrow> bool"
  optimizeOrdersForMarketExchangeOperation ::
    "'a SignedOrder_scheme list \<Rightarrow> MarketOperation \<Rightarrow> 'a SignedOrder_scheme list"
  getMethodAbiFromContractAbi :: "'abi \<Rightarrow> string \<Rightarrow> 'm"
  convertToSignatureWithType :: "string \<Rightarrow> SignatureType \<Rightarrow> string"
  generatePseudoRandomSalt :: int
  getContractCodeAsync :: "string \<Rightarrow> string"
  ecSignTransactionAsync ::
    "ZeroExTransaction \<Rightarrow> string \<Rightarrow> js_error + SignedZeroExTransaction"

definition getSmartContractParamsOrThrowAsync ::
  "('a, 'abi, 'm) Externals \<Rightarrow> 'a SignedOrder_scheme SwapQuote \<Rightarrow>
   js_error + ('a SignedOrder_scheme, 'm) SmartContractParamsInfo" where
  "getSmartContractParamsOrThrowAsync this quote =
     (if \<not> isValidSwapQuote this quote then Inl (AssertionError ''quote'')
      else
        let orders = SwapQuote.orders quote;
            signatures = map SignedOrder.signature orders;
            optimizedOrders =
              optimizeOrdersForMarketExchangeOperation this orders (quote_type quote);
            (params, methodName) =
              (case quote of
                 MarketBuySwapQuote _ _ makerAssetFillAmount \<Rightarrow>
                   (ExchangeMarketBuySmartContractParams optimizedOrders signatures
                      makerAssetFillAmount,
                    ''marketBuyOrders'')
               | MarketSellSwapQuote _ _ takerAssetFillAmount \<Rightarrow>
                   (ExchangeMarketSellSmartContractParams optimizedOrders signatures
                      takerAssetFillAmount,
                    ''marketSellOrders''));
            methodAbi = getMethodAbiFromContractAbi this (exchange_abi this) methodName
        in Inr \<lparr>params = params, toAddress = exchange_address this, methodAbi = methodAbi\<rparr>)"

subsection \<open>\<^verbatim>\<open>_getCoordinatorZeroExTransactionAsync\<close>\<close>

text \<open>
  Lines 175--203 (the same as lines 414--442): the assertions, the encoded call and the
  unsigned transaction. \<^verbatim>\<open>opts.takerAddress\<close> may be \<^verbatim>\<open>undefined\<close>, which the address
  assertion refuses.
\<close>

definition buildTransaction ::
  "('a, 'abi, 'm) Externals \<Rightarrow> 'a SignedOrder_scheme SwapQuote \<Rightarrow> SwapQuoteGetOutputOpts \<Rightarrow>
   js_error + ZeroExTransaction \<times> string" where
  "buildTransaction this quote opts =
     (if \<not> isValidSwapQuote this quote then Inl (AssertionError ''quote'')
      else
        (case takerAddress opts of
           None \<Rightarrow> Inl (AssertionError ''opts.takerAddress'')
         | Some takerAddress' \<Rightarrow>
             if \<not> isETHAddressHex this takerAddress'
             then Inl (AssertionError ''opts.takerAddress'')
             else
               (case getSmartContractParamsOrThrowAsync this quote of
                  Inl e \<Rightarrow> Inl e
                | Inr info \<Rightarrow>
                    let orders = ExchangeSmartContractParams.orders (params info);
                        signatures = ExchangeSmartContractParams.signatures (params info);
                        zeroExOperation =
                          (case params info of
                             ExchangeMarketBuySmartContractParams _ _ makerAssetFillAmount \<Rightarrow>
                               marketBuyOrdersNoThrow_getABIEncodedTransactionData this
                                 orders makerAssetFillAmount signatures
                           | ExchangeMarketSellSmartContractParams _ _ takerAssetFillAmount \<Rightarrow>
                               marketSellOrdersNoThrow_getABIEncodedTransactionData this
                                 orders takerAssetFillAmount signatures);
                        transaction =
                          \<lparr>salt = generatePseudoRandomSalt this,
                           signerAddress = takerAddress',
                           data = zeroExOperation,
                           verifyingContractAddress = exchange_address this\<rparr>
                    in Inr (transaction, takerAddress'))))"

text \<open>
  Lines 171--234, the function with the probe of the taker's code (lines 204--233). The
  second component lists the calls of the signer: the transaction and the address it was
  asked to sign for.
\<close>

definition getCoordinatorZeroExTransactionAsync ::
  "('a, 'abi, 'm) Externals \<Rightarrow> 'a SignedOrder_scheme SwapQuote \<Rightarrow> SwapQuoteGetOutputOpts \<Rightarrow>
   (js_error + SignedZeroExTransaction) \<times> (ZeroExTransaction \<times> string) list" where
  "getCoordinatorZeroExTransactionAsync this quote opts =
     (case buildTransaction this quote opts of
        Inl e \<Rightarrow> (Inl e, [])
      | Inr (transaction, takerAddress') \<Rightarrow>
          let contractCode = getContractCodeAsync this takerAddress'
          in if contractCode = ''0x'' \<or> contractCode = ''0x00''
             then (ecSignTransactionAsync this transaction takerAddress',
                   [(transaction, takerAddress')])
             else
               let signature' = convertToSignatureWithType this ''0x00'' Wallet
               in (Inr (ZeroExTransaction.extend transaction
                          (SignedZeroExTransaction.fields signature')),
                   []))"

text \<open>
  Lines 410--449, the other copy of the function in the file: it has no probe of the
  taker's code and always asks the signer (lines 443--448).
\<close>

definition getCoordinatorZeroExTransactionAsync_always_signing ::
  "('a, 'abi, 'm) Externals \<Rightarrow> 'a SignedOrder_scheme SwapQuote \<Rightarrow> SwapQuoteGetOutputOpts \<Rightarrow>
   (js_error + SignedZeroExTransaction) \<times> (ZeroExTransaction \<times> string) list" where
  "getCoordinatorZeroExTransactionAsync_always_signing this quote opts =
     (case buildTransaction this quote opts of
        Inl e \<Rightarrow> (Inl e, [])
      | Inr (transaction, takerAddress') \<Rightarrow>
          (ecSignTransactionAsync this transaction takerAddress',
           [(transaction, takerAddress')]))"

section \<open>Notions used to state the properties\<close>

text \<open>
  The local constant \<^verbatim>\<open>serverEndpointsToOrders\<close> of line 461 and, in the order of
  \<^verbatim>\<open>Object.keys\<close>, the responses that the loop of lines 466--474 receives.
\<close>

definition serverEndpointsToOrders where
  "serverEndpointsToOrders coordinator signedOrders =
     mapServerEndpointsToOrdersAsync coordinator (coordinatorOrders coordinator signedOrders)"

definition serverResponses where
  "serverResponses coordinator signedOrders tx =
     map (executeServerRequestAsync coordinator tx (signerAddress tx))
       (Object_keys (serverEndpointsToOrders coordinator signedOrders))"

text \<open>
  \<^verbatim>\<open>Object.entries\<close>: the endpoints with their order groups. An endpoint \<open>refuses\<close> when
  its response has \<^verbatim>\<open>isError\<close> set. The responses of a call are \<open>attributed\<close> when each of
  them carries, as its \<^verbatim>\<open>coordinatorOperator\<close>, the endpoint it was requested from: this
  is what \<^verbatim>\<open>_executeServerRequestAsync\<close>, a parameter here, is relied on to do when the
  source looks the orders of a response up under \<^verbatim>\<open>resp.coordinatorOperator\<close> (lines 505
  and 513).
\<close>

definition Object_entries :: "('k, 'v) alist \<Rightarrow> ('k \<times> 'v) list" where
  "Object_entries obj = DAList.impl_of obj"

definition refuses where
  "refuses coordinator tx endpoint =
     isError (executeServerRequestAsync coordinator tx (signerAddress tx) endpoint)"

definition attributed where
  "attributed coordinator signedOrders tx =
     list_all (\<lambda>endpoint.
        coordinatorOperator (executeServerRequestAsync coordinator tx (signerAddress tx) endpoint)
          = endpoint)
       (Object_keys (serverEndpointsToOrders coordinator signedOrders))"

text \<open>
  The signatures an endpoint's response brings: those of its body, none when the body is
  \<^verbatim>\<open>undefined\<close>.
\<close>

definition approvalSignatures where
  "approvalSignatures coordinator tx endpoint =
     (case body (executeServerRequestAsync coordinator tx (signerAddress tx) endpoint) of
        None \<Rightarrow> [] | Some rawResponse \<Rightarrow> approval.signatures rawResponse)"

text \<open>
  The comparison that the specification describes for addresses (section 4.2: ``address
  comparison is case-normalized''): two addresses are equal once their letters are put in
  lower case. It is written from the specification's words, to be compared with the
  comparison the source makes.
\<close>

definition toLowerCase :: "string \<Rightarrow> string" where
  "toLowerCase s =
     map (\<lambda>ch. case map_of (zip ''ABCDEFGHIJKLMNOPQRSTUVWXYZ'' ''abcdefghijklmnopqrstuvwxyz'') ch of
                 None \<Rightarrow> ch | Some lower \<Rightarrow> lower) s"

definition caseNormalizedEqual :: "string \<Rightarrow> string \<Rightarrow> bool" where
  "caseNormalizedEqual a b = (toLowerCase a = toLowerCase b)"

section \<open>An example batch\<close>

text \<open>
  Three orders: \<open>orderA\<close> and \<open>orderB\<close> name the coordinator as sender and belong to the
  servers \<open>x\<close> and \<open>y\<close>, \<open>orderC\<close> needs no coordinator. The example coordinator groups
  orders by fee recipient, one entry per recipient in the order of first appearance; server
  \<open>y\<close> refuses, every other server approves with one signature for the transaction and one
  shared expiration time.
\<close>

record OrderWithFeeRecipient = SignedOrder +
  feeRecipientAddress :: string

definition groupByFeeRecipient ::
  "OrderWithFeeRecipient list \<Rightarrow> (string, OrderWithFeeRecipient list) alist" where
  "groupByFeeRecipient ords =
     fold (\<lambda>ord obj. DAList.map_default (feeRecipientAddress ord) [ord] (\<lambda>g. g @ [ord]) obj)
       ords DAList.empty"

definition approvalOfX :: CoordinatorServerApprovalRawResponse where
  "approvalOfX = \<lparr>approval.signatures = [''0x1b''], expirationTimeSeconds = BigNumber 1600000000\<rparr>"

definition exampleCoordinator where
  "exampleCoordinator =
     \<lparr>address = ''0xc0'',
      mapServerEndpointsToOrdersAsync = groupByFeeRecipient,
      executeServerRequestAsync = (\<lambda>tx txOrigin endpoint.
        if endpoint = ''y''
        then \<lparr>isError = True, body = None, coordinatorOperator = endpoint\<rparr>
        else \<lparr>isError = False, body = Some approvalOfX, coordinatorOperator = endpoint\<rparr>)\<rparr>"

definition orderA :: OrderWithFeeRecipient where
  "orderA = \<lparr>senderAddress = ''0xc0'', signature = ''0xa1'', feeRecipientAddress = ''x''\<rparr>"

definition orderB :: OrderWithFeeRecipient where
  "orderB = \<lparr>senderAddress = ''0xc0'', signature = ''0xb2'', feeRecipientAddress = ''y''\<rparr>"

definition orderC :: OrderWithFeeRecipient where
  "orderC = \<lparr>senderAddress = ''0x00'', signature = ''0xc3'', feeRecipientAddress = ''z''\<rparr>"

definition exampleTransaction :: SignedZeroExTransaction where
  "exampleTransaction =
     \<lparr>salt = 7, signerAddress = ''0x7a'', data = ''0xd0'', verifyingContractAddress = ''0xe0'',
      SignedZeroExTransaction.signature = ''0x5e''\<rparr>"

text \<open>
  \<open>orderUpperCase\<close> names the coordinator in upper-case letters; \<open>orderA2\<close> is a second
  order of server \<open>x\<close>; \<open>perSignatureResponse\<close> is an approval whose expiration field is a
  list with one entry per signature.
\<close>

definition orderUpperCase :: OrderWithFeeRecipient where
  "orderUpperCase = \<lparr>senderAddress = ''0xC0'', signature = ''0xd4'', feeRecipientAddress = ''x''\<rparr>"

definition orderA2 :: OrderWithFeeRecipient where
  "orderA2 = \<lparr>senderAddress = ''0xc0'', signature = ''0xa5'', feeRecipientAddress = ''x''\<rparr>"

definition perSignatureResponse :: CoordinatorServerApprovalRawResponse where
  "perSignatureResponse =
     \<lparr>approval.signatures = [''0x1b'', ''0x1c''],
      expirationTimeSeconds = Array [BigNumber 1600000000, BigNumber 1700000000]\<rparr>"

text \<open>
  Two coordinators whose servers approve and refuse as those of the example but name
  another operator in their responses: with \<open>coordinatorNamingY\<close> every response names
  \<open>y\<close>; with \<open>coordinatorSwappingNames\<close> the response of \<open>y\<close> names \<open>x\<close> and every other
  response names \<open>y\<close>.
\<close>

definition coordinatorNamingY where
  "coordinatorNamingY =
     exampleCoordinator\<lparr>executeServerRequestAsync := (\<lambda>tx txOrigin endpoint.
        if endpoint = ''y''
        then \<lparr>isError = True, body = None, coordinatorOperator = ''y''\<rparr>
        else \<lparr>isError = False, body = Some approvalOfX, coordinatorOperator = ''y''\<rparr>)\<rparr>"

definition coordinatorSwappingNames where
  "coordinatorSwappingNames =
     exampleCoordinator\<lparr>executeServerRequestAsync := (\<lambda>tx txOrigin endpoint.
        if endpoint = ''y''
        then \<lparr>isError = True, body = None, coordinatorOperator = ''x''\<rparr>
        else \<lparr>isError = False, body = Some approvalOfX, coordinatorOperator = ''y''\<rparr>)\<rparr>"

text \<open>
  A coordinator all of whose servers approve: server \<open>z\<close> with two signatures, every other
  server with the one signature of \<open>approvalOfX\<close>. \<open>orderD\<close> and \<open>orderE\<close> are the two
  orders of server \<open>z\<close>.
\<close>

definition approvalOfZ :: CoordinatorServerApprovalRawResponse where
  "approvalOfZ =
     \<lparr>approval.signatures = [''0x2c'', ''0x2d''], expirationTimeSeconds = BigNumber 1700000000\<rparr>"

definition coordinatorOfTwoSigners where
  "coordinatorOfTwoSigners =
     exampleCoordinator\<lparr>executeServerRequestAsync := (\<lambda>tx txOrigin endpoint.
        \<lparr>isError = False,
         body = Some (if endpoint = ''z'' then approvalOfZ else approvalOfX),
         coordinatorOperator = endpoint\<rparr>)\<rparr>"

definition orderD :: OrderWithFeeRecipient where
  "orderD = \<lparr>senderAddress = ''0xc0'', signature = ''0xd6'', feeRecipientAddress = ''z''\<rparr>"

definition orderE :: OrderWithFeeRecipient where
  "orderE = \<lparr>senderAddress = ''0xc0'', signature = ''0xe7'', feeRecipientAddress = ''z''\<rparr>"

text \<open>
  Externals for the transaction builder: a quote is valid when it has orders, an address
  when it starts with \<^verbatim>\<open>0x\<close>; the optimizer reverses the orders; the address \<^verbatim>\<open>0x7a\<close> has
  no code, every other address has.
\<close>

definition exampleExternals ::
  "(unit OrderWithFeeRecipient_ext, string list, string option) Externals" where
  "exampleExternals =
     \<lparr>exchange_address = ''0xe0'',
      exchange_abi = [''marketBuyOrders'', ''marketSellOrders''],
      marketBuyOrdersNoThrow_getABIEncodedTransactionData =
        (\<lambda>ords amount sigs. ''0xb0'' @ concat (map (drop 2) sigs)),
      marketSellOrdersNoThrow_getABIEncodedTransactionData =
        (\<lambda>ords amount sigs. ''0x5e'' @ concat (map (drop 2) sigs)),
      isValidSwapQuote = (\<lambda>q. SwapQuote.orders q \<noteq> []),
      isETHAddressHex = (\<lambda>a. take 2 a = ''0x''),
      optimizeOrdersForMarketExchangeOperation = (\<lambda>ords operation. rev ords),
      getMethodAbiFromContractAbi = (\<lambda>abi methodName. find (\<lambda>m. m = methodName) abi),
      convertToSignatureWithType = (\<lambda>sig signatureType. sig @ ''04''),
      generatePseudoRandomSalt = 7,
      getContractCodeAsync = (\<lambda>a. if a = ''0x7a'' then ''0x'' else ''0x6080''),
      ecSignTransactionAsync = (\<lambda>transaction a.
        Inr (ZeroExTransaction.extend transaction (SignedZeroExTransaction.fields ''0x1c03'')))\<rparr>"

definition exampleQuote :: "OrderWithFeeRecipient SwapQuote" where
  "exampleQuote = MarketSellSwapQuote [orderA, orderB] [] 10"

section \<open>Lemmas\<close>

subsection \<open>The aggregator, path by path\<close>

lemma requestLoop_eq:
  "requestLoop c tx txOrigin eps (es, as, sent) =
     (es @ filter isError (map (executeServerRequestAsync c tx txOrigin) eps),
      as @ filter (\<lambda>r. \<not> isError r) (map (executeServerRequestAsync c tx txOrigin) eps),
      sent @ map (\<lambda>ep. (tx, txOrigin, ep)) eps)"
  by (induction eps arbitrary: es as sent) (simp_all add: Let_def)

lemma flatten_Inl: "flatten (map (\<lambda>a. Inl (f a)) xs) = concat (map f xs)"
  by (induction xs) simp_all

lemma getCoordinatorApprovalsAsync_sent:
  "snd (getCoordinatorApprovalsAsync c os tx) =
     map (\<lambda>ep. (tx, signerAddress tx, ep)) (Object_keys (serverEndpointsToOrders c os))"
  by (simp add: getCoordinatorApprovalsAsync_def serverEndpointsToOrders_def requestLoop_eq
      Let_def split: sum.split)

lemma getCoordinatorApprovalsAsync_refused:
  assumes "filter isError (serverResponses c os tx) \<noteq> []"
  shows "fst (getCoordinatorApprovalsAsync c os tx) =
     Inl (CoordinatorServerError FillFailed
       (flatten (concatNested
          (map (\<lambda>resp. DAList.lookup (serverEndpointsToOrders c os) (coordinatorOperator resp))
             (filter (\<lambda>r. \<not> isError r) (serverResponses c os tx)))
          (notCoordinatorOrders c os)))
       []
       (map (\<lambda>resp. \<lparr>response = resp,
                      orders = DAList.lookup (serverEndpointsToOrders c os) (coordinatorOperator resp)\<rparr>)
          (filter isError (serverResponses c os tx))))"
  using assms
  by (simp add: getCoordinatorApprovalsAsync_def serverEndpointsToOrders_def serverResponses_def
      requestLoop_eq Let_def)

lemma getCoordinatorApprovalsAsync_approved:
  assumes "filter isError (serverResponses c os tx) = []"
  shows "fst (getCoordinatorApprovalsAsync c os tx) =
     (case formatAll (serverResponses c os tx) of
        Inl e \<Rightarrow> Inl e
      | Inr allApprovals \<Rightarrow>
          Inr \<lparr>coordinatorApprovalSignatures = concat (map approval.signatures allApprovals),
               coordinatorExpirationTimes = concat (map expirationTimeSeconds allApprovals),
               signedZeroExTransaction = tx\<rparr>)"
proof -
  from assms have "filter (\<lambda>r. \<not> isError r) (serverResponses c os tx) = serverResponses c os tx"
    by (simp add: filter_empty_conv)
  with assms show ?thesis
    by (simp add: getCoordinatorApprovalsAsync_def serverEndpointsToOrders_def serverResponses_def
      requestLoop_eq Let_def flatten_Inl split: sum.split)
qed

lemma keys_entries: "Object_keys m = map fst (Object_entries m)"
  by (simp add: Object_keys_def Object_entries_def)

lemma lookup_entry:
  "(ep, g) \<in> set (Object_entries m) \<Longrightarrow> DAList.lookup m ep = Some g"
  by (simp add: DAList.lookup.rep_eq Object_entries_def)

lemma lookups_sublist:
  assumes "\<forall>(ep, g) \<in> set xs. L ep = Some g" and "\<forall>(ep, g) \<in> set xs. op (f ep) = ep"
  shows "map (\<lambda>r. L (op r)) (filter P (map f (map fst xs))) =
         map (\<lambda>(ep, g). Some g) (filter (\<lambda>(ep, g). P (f ep)) xs)"
  using assms by (induction xs) auto

lemma responses_sublist:
  "filter P (map f (map fst xs)) = map (\<lambda>(ep, g). f ep) (filter (\<lambda>(ep, g). P (f ep)) xs)"
  by (induction xs) auto

lemma flatten_concatNested:
  "flatten (concatNested (map Some gs) ns) = map Some (concat gs @ ns)"
  by (induction gs) (simp_all add: concatNested_def, induction ns, simp_all)

lemma mset_split_groups:
  "mset (concat (map snd (filter P xs))) + mset (concat (map snd (filter (\<lambda>x. \<not> P x) xs))) =
   mset (concat (map snd xs))"
  by (induction xs) auto

lemma mset_coordinator_split:
  "mset (coordinatorOrders c os) + mset (notCoordinatorOrders c os) = mset os"
  by (simp add: coordinatorOrders_def notCoordinatorOrders_def)

lemma any_refused_iff:
  "filter isError (serverResponses c os tx) \<noteq> [] \<longleftrightarrow>
   (\<exists>endpoint \<in> set (Object_keys (serverEndpointsToOrders c os)). refuses c tx endpoint)"
  by (auto simp: serverResponses_def refuses_def filter_empty_conv)

lemma refused_outcome:
  assumes refused: "\<exists>endpoint \<in> set (Object_keys (serverEndpointsToOrders c os)). refuses c tx endpoint"
    and attribution: "attributed c os tx"
  shows "fst (getCoordinatorApprovalsAsync c os tx) =
     Inl (CoordinatorServerError FillFailed
       (map Some
          (concat (map snd (filter (\<lambda>(endpoint, ordersOfEndpoint). \<not> refuses c tx endpoint)
                      (Object_entries (serverEndpointsToOrders c os))))
           @ notCoordinatorOrders c os))
       []
       (map (\<lambda>(endpoint, ordersOfEndpoint).
               \<lparr>response = executeServerRequestAsync c tx (signerAddress tx) endpoint,
                orders = Some ordersOfEndpoint\<rparr>)
          (filter (\<lambda>(endpoint, ordersOfEndpoint). refuses c tx endpoint)
             (Object_entries (serverEndpointsToOrders c os)))))"
proof -
  let ?m = "serverEndpointsToOrders c os"
  let ?f = "executeServerRequestAsync c tx (signerAddress tx)"
  have L: "\<forall>(ep, g) \<in> set (Object_entries ?m). DAList.lookup ?m ep = Some g"
    by (auto simp: lookup_entry)
  have A: "\<forall>(ep, g) \<in> set (Object_entries ?m). coordinatorOperator (?f ep) = ep"
    using attribution by (auto simp: attributed_def list_all_iff keys_entries)
  have R: "serverResponses c os tx = map ?f (map fst (Object_entries ?m))"
    by (simp add: serverResponses_def keys_entries)
  have ne: "filter isError (serverResponses c os tx) \<noteq> []"
    using refused by (simp add: any_refused_iff)
  have app: "map (\<lambda>resp. DAList.lookup ?m (coordinatorOperator resp))
               (filter (\<lambda>r. \<not> isError r) (serverResponses c os tx)) =
             map Some (map snd (filter (\<lambda>(endpoint, g). \<not> refuses c tx endpoint) (Object_entries ?m)))"
    using lookups_sublist [where xs = "Object_entries ?m" and L = "DAList.lookup ?m"
        and op = coordinatorOperator and f = ?f and P = "\<lambda>r. \<not> isError r", OF L A]
    by (simp add: R refuses_def case_prod_unfold comp_def)
  have err: "map (\<lambda>resp. \<lparr>response = resp, orders = DAList.lookup ?m (coordinatorOperator resp)\<rparr>)
               (filter isError (serverResponses c os tx)) =
             map (\<lambda>(endpoint, g). \<lparr>response = ?f endpoint, orders = Some g\<rparr>)
               (filter (\<lambda>(endpoint, g). refuses c tx endpoint) (Object_entries ?m))"
    unfolding R responses_sublist using L A
    by (auto simp: refuses_def case_prod_unfold)
  show ?thesis
    unfolding getCoordinatorApprovalsAsync_refused [OF ne] app err flatten_concatNested
    by (simp add: case_prod_unfold)
qed

lemma count_list_distinct:
  "distinct xs \<Longrightarrow> count_list xs x = (if x \<in> set xs then 1 else 0)"
  by (induction xs) auto

lemma lookup_None_iff: "DAList.lookup m k = None \<longleftrightarrow> k \<notin> set (Object_keys m)"
  by (simp add: DAList.lookup.rep_eq Object_keys_def map_of_eq_None_iff)

lemma distinct_Object_keys: "distinct (Object_keys m)"
  by (simp add: Object_keys_def)

lemma formatAll_Some:
  "list_all (\<lambda>r. body r \<noteq> None) rs \<Longrightarrow>
   formatAll rs = Inr (map (\<lambda>r. formatRawResponse (the (body r))) rs)"
  by (induction rs) auto

lemma formatAll_lengths:
  "formatAll rs = Inr fs \<Longrightarrow>
   length (concat (map approval.signatures fs)) = length (concat (map expirationTimeSeconds fs))"
  by (induction rs arbitrary: fs) (auto simp: formatRawResponse_def split: option.splits sum.splits)

lemma length_concat_groups:
  assumes "\<forall>(endpoint, ordersOfEndpoint) \<in> set xs. length (f endpoint) = length ordersOfEndpoint"
  shows "length (concat (map f (map fst xs))) = length (concat (map snd xs))"
  using assms by (induction xs) auto

subsection \<open>The transaction builder\<close>

lemma getSmartContractParams_valid:
  assumes "isValidSwapQuote this quote"
  shows "getSmartContractParamsOrThrowAsync this quote =
     Inr \<lparr>params =
            (case quote of
               MarketBuySwapQuote _ _ makerAssetFillAmount \<Rightarrow>
                 ExchangeMarketBuySmartContractParams
                   (optimizeOrdersForMarketExchangeOperation this (SwapQuote.orders quote) Buy)
                   (map SignedOrder.signature (SwapQuote.orders quote)) makerAssetFillAmount
             | MarketSellSwapQuote _ _ takerAssetFillAmount \<Rightarrow>
                 ExchangeMarketSellSmartContractParams
                   (optimizeOrdersForMarketExchangeOperation this (SwapQuote.orders quote) Sell)
                   (map SignedOrder.signature (SwapQuote.orders quote)) takerAssetFillAmount),
          toAddress = exchange_address this,
          methodAbi = getMethodAbiFromContractAbi this (exchange_abi this)
            (case quote of MarketBuySwapQuote _ _ _ \<Rightarrow> ''marketBuyOrders''
                         | MarketSellSwapQuote _ _ _ \<Rightarrow> ''marketSellOrders'')\<rparr>"
  using assms by (cases quote) (simp_all add: getSmartContractParamsOrThrowAsync_def)

lemma buildTransaction_ok:
  assumes "isValidSwapQuote this quote" and "takerAddress opts = Some taker"
    and "isETHAddressHex this taker"
  shows "\<exists>transaction. buildTransaction this quote opts = Inr (transaction, taker)
     \<and> signerAddress transaction = taker"
  using assms by (simp add: buildTransaction_def getSmartContractParams_valid Let_def)

text \<open>
  The copy of \<^verbatim>\<open>_getCoordinatorZeroExTransactionAsync\<close> at lines 410--449 asks the signer
  whatever code the taker's address has.
\<close>

lemma always_signing_copy:
  assumes "buildTransaction this quote opts = Inr (transaction, taker)"
  shows "getCoordinatorZeroExTransactionAsync_always_signing this quote opts =
     (ecSignTransactionAsync this transaction taker, [(transaction, taker)])"
  using assms by (simp add: getCoordinatorZeroExTransactionAsync_always_signing_def)

subsection \<open>The example batch, evaluated\<close>

lemmas example_defs =
  exampleCoordinator_def groupByFeeRecipient_def approvalOfX_def orderA_def orderB_def orderC_def
  exampleTransaction_def

lemma example_entries:
  "Object_entries (serverEndpointsToOrders exampleCoordinator [orderA, orderB, orderC]) =
     [(''x'', [orderA]), (''y'', [orderB])]"
  by (simp add: Object_entries_def serverEndpointsToOrders_def coordinatorOrders_def example_defs
      DAList.map_default.rep_eq DAList.empty.rep_eq)

lemma example_refused:
  "\<exists>endpoint \<in> set (Object_keys (serverEndpointsToOrders exampleCoordinator [orderA, orderB, orderC])).
     refuses exampleCoordinator exampleTransaction endpoint"
  unfolding keys_entries example_entries by (simp add: refuses_def exampleCoordinator_def)

lemma example_attributed:
  "attributed exampleCoordinator [orderA, orderB, orderC] exampleTransaction"
  unfolding attributed_def keys_entries example_entries by (simp add: exampleCoordinator_def)

lemma example_approved:
  "fst (getCoordinatorApprovalsAsync exampleCoordinator [orderA, orderC] exampleTransaction) =
     Inr \<lparr>coordinatorApprovalSignatures = [''0x1b''],
          coordinatorExpirationTimes = [BigNumber 1600000000],
          signedZeroExTransaction = exampleTransaction\<rparr>"
  by (simp add: getCoordinatorApprovalsAsync_def coordinatorOrders_def Object_keys_def
      formatRawResponse_def example_defs DAList.map_default.rep_eq DAList.empty.rep_eq)

section \<open>Properties of \<^verbatim>\<open>_getCoordinatorApprovalsAsync\<close>\<close>

text \<open>
  C1, as the specification states it, fails: the source finds the orders of a response under
  \<^verbatim>\<open>resp.coordinatorOperator\<close> (lines 505--506 and 513--514), not under the endpoint it
  asked. With \<open>coordinatorNamingY\<close> server \<open>y\<close> refuses, the groups partition the
  coordinator orders, and both responses name \<open>y\<close>: \<open>orderA\<close> is in neither list of the
  error and \<open>orderB\<close> is in both.
\<close>

theorem misattributed_responses_counterexample:
  "Object_entries (serverEndpointsToOrders coordinatorNamingY [orderA, orderB, orderC]) =
     [(''x'', [orderA]), (''y'', [orderB])]
   \<and> refuses coordinatorNamingY exampleTransaction ''y''
   \<and> mset (concat (map snd (Object_entries
         (serverEndpointsToOrders coordinatorNamingY [orderA, orderB, orderC])))) =
       mset (coordinatorOrders coordinatorNamingY [orderA, orderB, orderC])
   \<and> fst (getCoordinatorApprovalsAsync coordinatorNamingY [orderA, orderB, orderC]
            exampleTransaction) =
       Inl (CoordinatorServerError FillFailed [Some orderB, Some orderC] []
         [\<lparr>response = \<lparr>isError = True, body = None, coordinatorOperator = ''y''\<rparr>,
           orders = Some [orderB]\<rparr>])
   \<and> count_list ([orderB, orderC] @ concat [[orderB]]) orderA = 0
   \<and> count_list ([orderB, orderC] @ concat [[orderB]]) orderB = 2"
  by (simp add: getCoordinatorApprovalsAsync_def coordinatorOrders_def notCoordinatorOrders_def
      Object_keys_def Object_entries_def serverEndpointsToOrders_def refuses_def
      coordinatorNamingY_def concatNested_def DAList.lookup.rep_eq example_defs
      DAList.map_default.rep_eq DAList.empty.rep_eq)

text \<open>
  C1, amended. On the any-refused path (some endpoint refuses), if the groups of the
  endpoint-to-orders mapping partition the coordinator orders and every response carries
  as its \<^verbatim>\<open>coordinatorOperator\<close> the endpoint it was requested from, the call fails with the
  structured error, the approved list and the orders lists of the refusals hold orders only
  (no \<^verbatim>\<open>undefined\<close>), and together they hold every order of the batch exactly as often as
  the batch does: none is lost, none is duplicated.
\<close>

theorem every_order_exactly_once:
  assumes refused:
      "\<exists>endpoint \<in> set (Object_keys (serverEndpointsToOrders c os)). refuses c tx endpoint"
    and partition:
      "mset (concat (map snd (Object_entries (serverEndpointsToOrders c os)))) =
       mset (coordinatorOrders c os)"
    and attribution: "attributed c os tx"
  shows "\<exists>approved implicated errorsWithOrders.
      fst (getCoordinatorApprovalsAsync c os tx) =
        Inl (CoordinatorServerError FillFailed (map Some approved) [] errorsWithOrders)
      \<and> map CoordinatorServerErrorWithOrders.orders errorsWithOrders = map Some implicated
      \<and> mset approved + mset (concat implicated) = mset os"
proof -
  let ?entries = "Object_entries (serverEndpointsToOrders c os)"
  let ?P = "\<lambda>(endpoint, ordersOfEndpoint). refuses c tx endpoint"
  let ?approved = "concat (map snd (filter (\<lambda>x. \<not> ?P x) ?entries)) @ notCoordinatorOrders c os"
  let ?implicated = "map snd (filter ?P ?entries)"
  have "mset ?approved + mset (concat ?implicated) =
        mset (concat (map snd ?entries)) + mset (notCoordinatorOrders c os)"
    using mset_split_groups [of ?P ?entries] by (simp add: ac_simps)
  also have "\<dots> = mset os"
    by (simp add: partition mset_coordinator_split)
  finally have total: "mset ?approved + mset (concat ?implicated) = mset os" .
  have "fst (getCoordinatorApprovalsAsync c os tx) =
        Inl (CoordinatorServerError FillFailed (map Some ?approved) []
          (map (\<lambda>(endpoint, ordersOfEndpoint).
               \<lparr>response = executeServerRequestAsync c tx (signerAddress tx) endpoint,
                orders = Some ordersOfEndpoint\<rparr>) (filter ?P ?entries)))"
    using refused_outcome [OF refused attribution] by (simp add: case_prod_unfold)
  moreover have "map CoordinatorServerErrorWithOrders.orders
          (map (\<lambda>(endpoint, ordersOfEndpoint).
               \<lparr>response = executeServerRequestAsync c tx (signerAddress tx) endpoint,
                orders = Some ordersOfEndpoint\<rparr>) (filter ?P ?entries)) = map Some ?implicated"
    by (simp add: case_prod_unfold comp_def)
  ultimately show ?thesis using total by blast
qed

theorem every_order_exactly_once_witness:
  "\<exists>approved implicated errorsWithOrders.
      fst (getCoordinatorApprovalsAsync exampleCoordinator [orderA, orderB, orderC] exampleTransaction) =
        Inl (CoordinatorServerError FillFailed (map Some approved) [] errorsWithOrders)
      \<and> map CoordinatorServerErrorWithOrders.orders errorsWithOrders = map Some implicated
      \<and> mset approved + mset (concat implicated) = mset [orderA, orderB, orderC]"
proof -
  have partition:
    "mset (concat (map snd (Object_entries
        (serverEndpointsToOrders exampleCoordinator [orderA, orderB, orderC])))) =
     mset (coordinatorOrders exampleCoordinator [orderA, orderB, orderC])"
    unfolding example_entries
    by (simp add: coordinatorOrders_def exampleCoordinator_def orderA_def orderB_def orderC_def)
  show ?thesis
    using every_order_exactly_once [OF example_refused partition example_attributed] .
qed

text \<open>
  C2, as the specification states it, fails: the source pairs a response with the group
  found under \<^verbatim>\<open>resp.coordinatorOperator\<close>, not with the group of the endpoint it asked.
  With \<open>coordinatorSwappingNames\<close> server \<open>x\<close> approves and server \<open>y\<close> refuses, yet the
  approved orders hold \<open>orderB\<close>, the order of \<open>y\<close>, instead of \<open>orderA\<close>, the order of
  \<open>x\<close>, and the one refusal, that of \<open>y\<close>, carries the group of \<open>x\<close>.
\<close>

theorem swapped_operators_counterexample:
  "Object_entries (serverEndpointsToOrders coordinatorSwappingNames [orderA, orderB, orderC]) =
     [(''x'', [orderA]), (''y'', [orderB])]
   \<and> \<not> refuses coordinatorSwappingNames exampleTransaction ''x''
   \<and> refuses coordinatorSwappingNames exampleTransaction ''y''
   \<and> fst (getCoordinatorApprovalsAsync coordinatorSwappingNames [orderA, orderB, orderC]
            exampleTransaction) =
       Inl (CoordinatorServerError FillFailed [Some orderB, Some orderC] []
         [\<lparr>response = \<lparr>isError = True, body = None, coordinatorOperator = ''x''\<rparr>,
           orders = Some [orderA]\<rparr>])
   \<and> [Some orderB, Some orderC] \<noteq> map Some ([orderA] @ [orderC])
   \<and> Some [orderA] \<noteq> Some [orderB]"
  by (simp add: getCoordinatorApprovalsAsync_def coordinatorOrders_def notCoordinatorOrders_def
      Object_keys_def Object_entries_def serverEndpointsToOrders_def refuses_def
      coordinatorSwappingNames_def concatNested_def DAList.lookup.rep_eq example_defs
      DAList.map_default.rep_eq DAList.empty.rep_eq)

text \<open>
  C2, amended. When at least one endpoint refuses, the error list has exactly one entry per
  refusing endpoint, in the order of the endpoints, made of that endpoint's response and of
  the group found under the \<^verbatim>\<open>coordinatorOperator\<close> that the response names; the approved
  orders are the groups found under the \<^verbatim>\<open>coordinatorOperator\<close> named by the responses of
  the endpoints that approved, followed by the orders whose sender is not the coordinator.
  When every response names the endpoint it was requested from, the approved orders are
  exactly the groups of the endpoints that approved followed by the orders whose sender is
  not the coordinator, and each entry of the error list pairs the response of a refusing
  endpoint with that endpoint's own group.
\<close>

theorem approved_and_refused_lists:
  assumes refused:
    "\<exists>endpoint \<in> set (Object_keys (serverEndpointsToOrders c os)). refuses c tx endpoint"
  shows "fst (getCoordinatorApprovalsAsync c os tx) =
     Inl (CoordinatorServerError FillFailed
       (flatten (concatNested
          (map (\<lambda>endpoint. DAList.lookup (serverEndpointsToOrders c os)
                  (coordinatorOperator (executeServerRequestAsync c tx (signerAddress tx) endpoint)))
             (filter (\<lambda>endpoint. \<not> refuses c tx endpoint)
                (Object_keys (serverEndpointsToOrders c os))))
          (notCoordinatorOrders c os)))
       []
       (map (\<lambda>endpoint.
               \<lparr>response = executeServerRequestAsync c tx (signerAddress tx) endpoint,
                orders = DAList.lookup (serverEndpointsToOrders c os)
                  (coordinatorOperator (executeServerRequestAsync c tx (signerAddress tx) endpoint))\<rparr>)
          (filter (\<lambda>endpoint. refuses c tx endpoint)
             (Object_keys (serverEndpointsToOrders c os)))))
   \<and> (attributed c os tx \<longrightarrow>
       fst (getCoordinatorApprovalsAsync c os tx) =
         Inl (CoordinatorServerError FillFailed
           (map Some
              (concat (map snd (filter (\<lambda>(endpoint, ordersOfEndpoint). \<not> refuses c tx endpoint)
                          (Object_entries (serverEndpointsToOrders c os))))
               @ notCoordinatorOrders c os))
           []
           (map (\<lambda>(endpoint, ordersOfEndpoint).
                   \<lparr>response = executeServerRequestAsync c tx (signerAddress tx) endpoint,
                    orders = Some ordersOfEndpoint\<rparr>)
              (filter (\<lambda>(endpoint, ordersOfEndpoint). refuses c tx endpoint)
                 (Object_entries (serverEndpointsToOrders c os))))))"
proof -
  have ne: "filter isError (serverResponses c os tx) \<noteq> []"
    using refused by (simp add: any_refused_iff)
  have general: "fst (getCoordinatorApprovalsAsync c os tx) =
     Inl (CoordinatorServerError FillFailed
       (flatten (concatNested
          (map (\<lambda>endpoint. DAList.lookup (serverEndpointsToOrders c os)
                  (coordinatorOperator (executeServerRequestAsync c tx (signerAddress tx) endpoint)))
             (filter (\<lambda>endpoint. \<not> refuses c tx endpoint)
                (Object_keys (serverEndpointsToOrders c os))))
          (notCoordinatorOrders c os)))
       []
       (map (\<lambda>endpoint.
               \<lparr>response = executeServerRequestAsync c tx (signerAddress tx) endpoint,
                orders = DAList.lookup (serverEndpointsToOrders c os)
                  (coordinatorOperator (executeServerRequestAsync c tx (signerAddress tx) endpoint))\<rparr>)
          (filter (\<lambda>endpoint. refuses c tx endpoint)
             (Object_keys (serverEndpointsToOrders c os)))))"
    unfolding getCoordinatorApprovalsAsync_refused [OF ne]
    by (simp add: serverResponses_def refuses_def filter_map comp_def)
  show ?thesis
    using general refused_outcome [OF refused] by blast
qed

theorem approved_and_refused_lists_witness:
  "fst (getCoordinatorApprovalsAsync exampleCoordinator [orderA, orderB, orderC] exampleTransaction) =
     Inl (CoordinatorServerError FillFailed [Some orderA, Some orderC] []
       [\<lparr>response = \<lparr>isError = True, body = None, coordinatorOperator = ''y''\<rparr>,
         orders = Some [orderB]\<rparr>])"
  using approved_and_refused_lists [OF example_refused, THEN conjunct2, rule_format,
      OF example_attributed]
  by (simp add: example_entries refuses_def notCoordinatorOrders_def)
     (simp add: example_defs)





text \<open>
  C5, as the specification states it, fails: the source compares \<^verbatim>\<open>senderAddress\<close> with the
  coordinator's address by \<^verbatim>\<open>===\<close> and \<^verbatim>\<open>!==\<close>, so an address that differs from the
  coordinator's in letter case only is equal to it under the case-normalized comparison, yet
  its order is not selected for approval and lands among the orders that need none.
\<close>

theorem case_sensitive_counterexample:
  "caseNormalizedEqual (senderAddress orderUpperCase) (address exampleCoordinator)
   \<and> orderUpperCase \<notin> set (coordinatorOrders exampleCoordinator [orderUpperCase])
   \<and> orderUpperCase \<in> set (notCoordinatorOrders exampleCoordinator [orderUpperCase])"
  by (simp add: caseNormalizedEqual_def toLowerCase_def orderUpperCase_def exampleCoordinator_def
      coordinatorOrders_def notCoordinatorOrders_def)

text \<open>
  C5, amended. An order of the batch is selected for approval if and only if its
  \<^verbatim>\<open>senderAddress\<close> is the coordinator's address, character for character; every other
  order of the batch is in the list of orders that need no approval.
\<close>

theorem selection_by_exact_sender:
  "(ord \<in> set (coordinatorOrders c os) \<longleftrightarrow> ord \<in> set os \<and> senderAddress ord = address c)
   \<and> (ord \<in> set (notCoordinatorOrders c os) \<longleftrightarrow> ord \<in> set os \<and> senderAddress ord \<noteq> address c)"
  by (auto simp: coordinatorOrders_def notCoordinatorOrders_def)

text \<open>
  C6, as the specification states it, fails: the servers decide how many signatures they
  return. In the example, server \<open>x\<close> approves two orders with the single signature it
  gives for the transaction, and the call succeeds with one signature for two orders.
\<close>

theorem one_signature_for_two_orders_counterexample:
  "Object_entries (serverEndpointsToOrders exampleCoordinator [orderA, orderA2]) =
     [(''x'', [orderA, orderA2])]
   \<and> \<not> refuses exampleCoordinator exampleTransaction ''x''
   \<and> fst (getCoordinatorApprovalsAsync exampleCoordinator [orderA, orderA2] exampleTransaction) =
       Inr \<lparr>coordinatorApprovalSignatures = [''0x1b''],
            coordinatorExpirationTimes = [BigNumber 1600000000],
            signedZeroExTransaction = exampleTransaction\<rparr>
   \<and> length (coordinatorOrders exampleCoordinator [orderA, orderA2]) = 2"
  by (simp add: getCoordinatorApprovalsAsync_def coordinatorOrders_def Object_keys_def
      Object_entries_def serverEndpointsToOrders_def refuses_def orderA2_def
      formatRawResponse_def example_defs DAList.map_default.rep_eq DAList.empty.rep_eq)

text \<open>
  C6, amended. If every endpoint approves and its approval carries a body, the call
  succeeds, the signatures of the result are the signatures of the endpoints concatenated in
  the order of \<^verbatim>\<open>Object.keys\<close>, and there are as many of them as the endpoints returned
  in total; that number is the number of coordinator orders when each approval carries one
  signature per order of the endpoint's group and the groups partition the coordinator
  orders.
\<close>

theorem signatures_concatenated:
  assumes allApprove:
      "\<forall>endpoint \<in> set (Object_keys (serverEndpointsToOrders c os)).
         \<not> refuses c tx endpoint
         \<and> body (executeServerRequestAsync c tx (signerAddress tx) endpoint) \<noteq> None"
  shows "\<exists>result.
      fst (getCoordinatorApprovalsAsync c os tx) = Inr result
      \<and> coordinatorApprovalSignatures result =
          concat (map (approvalSignatures c tx) (Object_keys (serverEndpointsToOrders c os)))
      \<and> length (coordinatorApprovalSignatures result) =
          sum_list (map (\<lambda>endpoint. length (approvalSignatures c tx endpoint))
            (Object_keys (serverEndpointsToOrders c os)))
      \<and> ((\<forall>(endpoint, ordersOfEndpoint) \<in> set (Object_entries (serverEndpointsToOrders c os)).
             length (approvalSignatures c tx endpoint) = length ordersOfEndpoint)
          \<and> mset (concat (map snd (Object_entries (serverEndpointsToOrders c os)))) =
              mset (coordinatorOrders c os)
          \<longrightarrow> length (coordinatorApprovalSignatures result) = length (coordinatorOrders c os))"
proof -
  let ?m = "serverEndpointsToOrders c os"
  let ?rs = "serverResponses c os tx"
  let ?sigs = "concat (map (approvalSignatures c tx) (Object_keys ?m))"
  have none: "filter isError ?rs = []"
    using allApprove any_refused_iff [of c os tx] by blast
  have bodies: "list_all (\<lambda>r. body r \<noteq> None) ?rs"
    using allApprove by (auto simp: serverResponses_def list_all_iff)
  have sigs: "concat (map approval.signatures (map (\<lambda>r. formatRawResponse (the (body r))) ?rs)) =
        ?sigs"
    using bodies
    by (fastforce simp: serverResponses_def approvalSignatures_def formatRawResponse_def comp_def
        list_all_iff intro!: arg_cong [where f = concat])
  have total: "length ?sigs =
        sum_list (map (\<lambda>endpoint. length (approvalSignatures c tx endpoint)) (Object_keys ?m))"
    by (simp add: length_concat comp_def)
  have len: "length ?sigs = length (coordinatorOrders c os)"
    if onePerOrder: "\<forall>(endpoint, ordersOfEndpoint) \<in> set (Object_entries ?m).
          length (approvalSignatures c tx endpoint) = length ordersOfEndpoint"
      and partition: "mset (concat (map snd (Object_entries ?m))) = mset (coordinatorOrders c os)"
  proof -
    from onePerOrder have "length ?sigs = length (concat (map snd (Object_entries ?m)))"
      unfolding keys_entries by (rule length_concat_groups)
    also have "\<dots> = length (coordinatorOrders c os)"
      using partition by (metis size_mset)
    finally show ?thesis .
  qed
  have result: "fst (getCoordinatorApprovalsAsync c os tx) =
      Inr \<lparr>coordinatorApprovalSignatures = ?sigs,
           coordinatorExpirationTimes =
             concat (map expirationTimeSeconds (map (\<lambda>r. formatRawResponse (the (body r))) ?rs)),
           signedZeroExTransaction = tx\<rparr>"
    unfolding getCoordinatorApprovalsAsync_approved [OF none] formatAll_Some [OF bodies]
    using sigs by simp
  show ?thesis
    unfolding result using total len by auto
qed

theorem signatures_concatenated_witness:
  "\<exists>result.
      fst (getCoordinatorApprovalsAsync coordinatorOfTwoSigners [orderD, orderA, orderE, orderC]
             exampleTransaction) = Inr result
      \<and> coordinatorApprovalSignatures result = [''0x2c'', ''0x2d'', ''0x1b'']
      \<and> length (coordinatorApprovalSignatures result) =
          length (coordinatorOrders coordinatorOfTwoSigners [orderD, orderA, orderE, orderC])"
proof -
  let ?c = coordinatorOfTwoSigners
  let ?os = "[orderD, orderA, orderE, orderC]"
  have entries: "Object_entries (serverEndpointsToOrders ?c ?os) =
      [(''z'', [orderD, orderE]), (''x'', [orderA])]"
    by (simp add: Object_entries_def serverEndpointsToOrders_def coordinatorOrders_def
        coordinatorOfTwoSigners_def orderD_def orderE_def example_defs
        DAList.map_default.rep_eq DAList.empty.rep_eq)
  have h1: "\<forall>endpoint \<in> set (Object_keys (serverEndpointsToOrders ?c ?os)).
      \<not> refuses ?c exampleTransaction endpoint
      \<and> body (executeServerRequestAsync ?c exampleTransaction
                (signerAddress exampleTransaction) endpoint) \<noteq> None"
    unfolding keys_entries entries
    by (simp add: refuses_def coordinatorOfTwoSigners_def exampleCoordinator_def)
  have h2: "\<forall>(endpoint, ordersOfEndpoint) \<in> set (Object_entries (serverEndpointsToOrders ?c ?os)).
      length (approvalSignatures ?c exampleTransaction endpoint) = length ordersOfEndpoint"
    unfolding entries
    by (simp add: approvalSignatures_def coordinatorOfTwoSigners_def exampleCoordinator_def
        approvalOfX_def approvalOfZ_def)
  have h3: "mset (concat (map snd (Object_entries (serverEndpointsToOrders ?c ?os)))) =
      mset (coordinatorOrders ?c ?os)"
    unfolding entries
    by (simp add: coordinatorOrders_def coordinatorOfTwoSigners_def exampleCoordinator_def
        orderA_def orderC_def orderD_def orderE_def)
  have sigs: "concat (map (approvalSignatures ?c exampleTransaction)
        (Object_keys (serverEndpointsToOrders ?c ?os))) = [''0x2c'', ''0x2d'', ''0x1b'']"
    unfolding keys_entries entries
    by (simp add: approvalSignatures_def coordinatorOfTwoSigners_def exampleCoordinator_def
        approvalOfX_def approvalOfZ_def)
  from signatures_concatenated [OF h1] obtain result where
    r1: "fst (getCoordinatorApprovalsAsync ?c ?os exampleTransaction) = Inr result"
    and r2: "coordinatorApprovalSignatures result =
        concat (map (approvalSignatures ?c exampleTransaction)
          (Object_keys (serverEndpointsToOrders ?c ?os)))"
    and r3: "(\<forall>(endpoint, ordersOfEndpoint) \<in> set (Object_entries (serverEndpointsToOrders ?c ?os)).
             length (approvalSignatures ?c exampleTransaction endpoint) = length ordersOfEndpoint)
          \<and> mset (concat (map snd (Object_entries (serverEndpointsToOrders ?c ?os)))) =
              mset (coordinatorOrders ?c ?os)
          \<longrightarrow> length (coordinatorApprovalSignatures result) = length (coordinatorOrders ?c ?os)"
    by blast
  from r3 h2 h3 have "length (coordinatorApprovalSignatures result) =
      length (coordinatorOrders ?c ?os)" by blast
  with r1 r2 sigs show ?thesis by auto
qed

text \<open>
  C7, as the specification states it, fails: \<^verbatim>\<open>formatRawResponse\<close> has no case for a list
  of expirations. A list found in the field is replicated like any other value, once per
  signature, and not passed through.
\<close>

theorem per_signature_expirations_counterexample:
  "expirationTimeSeconds (formatRawResponse perSignatureResponse) =
     [Array [BigNumber 1600000000, BigNumber 1700000000],
      Array [BigNumber 1600000000, BigNumber 1700000000]]
   \<and> expirationTimeSeconds (formatRawResponse perSignatureResponse) \<noteq>
     [BigNumber 1600000000, BigNumber 1700000000]"
  by (simp add: formatRawResponse_def perSignatureResponse_def numeral_2_eq_2)

text \<open>
  C7, amended. \<^verbatim>\<open>formatRawResponse\<close> keeps the signatures and replicates the value of
  \<^verbatim>\<open>expirationTimeSeconds\<close>, whatever it is, once per signature, so the two lists of a
  formatted response have the same length; and whenever the aggregation succeeds, its
  signature list and its expiration list have the same length.
\<close>

theorem expirations_replicated:
  "approval.signatures (formatRawResponse rawResponse) = approval.signatures rawResponse
   \<and> expirationTimeSeconds (formatRawResponse rawResponse) =
       replicate (length (approval.signatures rawResponse)) (expirationTimeSeconds rawResponse)
   \<and> length (expirationTimeSeconds (formatRawResponse rawResponse)) =
       length (approval.signatures (formatRawResponse rawResponse))
   \<and> (\<forall>result. fst (getCoordinatorApprovalsAsync c os tx) = Inr result \<longrightarrow>
         length (coordinatorExpirationTimes result) = length (coordinatorApprovalSignatures result))"
proof -
  have "length (coordinatorExpirationTimes result) = length (coordinatorApprovalSignatures result)"
    if ok: "fst (getCoordinatorApprovalsAsync c os tx) = Inr result" for result
  proof (cases "filter isError (serverResponses c os tx) = []")
    case True
    from ok show ?thesis
      unfolding getCoordinatorApprovalsAsync_approved [OF True]
      by (auto split: sum.splits dest: formatAll_lengths)
  next
    case False
    from ok show ?thesis
      unfolding getCoordinatorApprovalsAsync_refused [OF False] by simp
  qed
  then show ?thesis by (simp add: formatRawResponse_def)
qed

theorem expirations_replicated_witness:
  "fst (getCoordinatorApprovalsAsync exampleCoordinator [orderA, orderC] exampleTransaction) =
     Inr \<lparr>coordinatorApprovalSignatures = [''0x1b''],
          coordinatorExpirationTimes = [BigNumber 1600000000],
          signedZeroExTransaction = exampleTransaction\<rparr>
   \<and> length (coordinatorExpirationTimes
         \<lparr>coordinatorApprovalSignatures = [''0x1b''],
          coordinatorExpirationTimes = [BigNumber 1600000000],
          signedZeroExTransaction = exampleTransaction\<rparr>) =
       length (coordinatorApprovalSignatures
         \<lparr>coordinatorApprovalSignatures = [''0x1b''],
          coordinatorExpirationTimes = [BigNumber 1600000000],
          signedZeroExTransaction = exampleTransaction\<rparr>)"
  using expirations_replicated [of perSignatureResponse exampleCoordinator "[orderA, orderC]"
      exampleTransaction] example_approved
  by blast

text \<open>
  C8. The requests of a call are, in order, one request per key of the endpoint-to-orders
  mapping, each carrying the transaction and its signer as origin. The keys are distinct, so
  an endpoint is sent exactly one request when the mapping holds an order group for it,
  and none otherwise: no endpoint with orders is skipped and none is asked twice.
\<close>

theorem one_request_per_endpoint:
  "snd (getCoordinatorApprovalsAsync c os tx) =
     map (\<lambda>endpoint. (tx, signerAddress tx, endpoint))
       (Object_keys (serverEndpointsToOrders c os))
   \<and> distinct (Object_keys (serverEndpointsToOrders c os))
   \<and> count_list (map (\<lambda>(t, txOrigin, endpoint). endpoint) (snd (getCoordinatorApprovalsAsync c os tx)))
        endpoint =
       (case DAList.lookup (serverEndpointsToOrders c os) endpoint of
          None \<Rightarrow> 0 | Some ordersOfEndpoint \<Rightarrow> 1)"
proof -
  have "map (\<lambda>(t, txOrigin, endpoint). endpoint) (snd (getCoordinatorApprovalsAsync c os tx)) =
        Object_keys (serverEndpointsToOrders c os)"
    by (simp add: getCoordinatorApprovalsAsync_sent comp_def)
  then show ?thesis
    using lookup_None_iff [of "serverEndpointsToOrders c os" endpoint]
    by (auto simp: getCoordinatorApprovalsAsync_sent distinct_Object_keys count_list_distinct
        split: option.split)
qed

section \<open>Properties of the transaction builder\<close>

text \<open>
  The copy of \<^verbatim>\<open>_getCoordinatorZeroExTransactionAsync\<close> at lines 171--234, for a valid quote
  and a well-formed taker address, builds the transaction with the taker as signer. If the
  code at the taker's address is neither \<^verbatim>\<open>0x\<close> nor \<^verbatim>\<open>0x00\<close>, it returns that transaction
  with the signature \<^verbatim>\<open>convertToSignatureWithType('0x00', SignatureType.Wallet)\<close> and the
  signer is not called; if the code is \<^verbatim>\<open>0x\<close> or \<^verbatim>\<open>0x00\<close>, the signer is called once, for
  that transaction and the taker, and its answer is the result.
\<close>

lemma probing_copy:
  assumes "isValidSwapQuote this quote" and "takerAddress opts = Some taker"
    and "isETHAddressHex this taker"
  shows "\<exists>transaction.
      buildTransaction this quote opts = Inr (transaction, taker)
      \<and> signerAddress transaction = taker
      \<and> (getContractCodeAsync this taker \<noteq> ''0x'' \<and> getContractCodeAsync this taker \<noteq> ''0x00'' \<longrightarrow>
           getCoordinatorZeroExTransactionAsync this quote opts =
             (Inr (ZeroExTransaction.extend transaction
                     (SignedZeroExTransaction.fields
                        (convertToSignatureWithType this ''0x00'' Wallet))),
              []))
      \<and> (getContractCodeAsync this taker = ''0x'' \<or> getContractCodeAsync this taker = ''0x00'' \<longrightarrow>
           getCoordinatorZeroExTransactionAsync this quote opts =
             (ecSignTransactionAsync this transaction taker, [(transaction, taker)]))"
proof -
  from buildTransaction_ok [OF assms] obtain transaction where
    b: "buildTransaction this quote opts = Inr (transaction, taker)"
    and s: "signerAddress transaction = taker" by blast
  show ?thesis
    using b s by (auto simp: getCoordinatorZeroExTransactionAsync_def Let_def)
qed

lemma probing_copy_example:
  "getCoordinatorZeroExTransactionAsync exampleExternals exampleQuote \<lparr>takerAddress = Some ''0xc7''\<rparr> =
     (Inr \<lparr>salt = 7, signerAddress = ''0xc7'', data = ''0x5ea1b2'',
           verifyingContractAddress = ''0xe0'', SignedZeroExTransaction.signature = ''0x0004''\<rparr>, [])
   \<and> getCoordinatorZeroExTransactionAsync exampleExternals exampleQuote \<lparr>takerAddress = Some ''0x7a''\<rparr> =
     (Inr \<lparr>salt = 7, signerAddress = ''0x7a'', data = ''0x5ea1b2'',
           verifyingContractAddress = ''0xe0'', SignedZeroExTransaction.signature = ''0x1c03''\<rparr>,
      [(\<lparr>salt = 7, signerAddress = ''0x7a'', data = ''0x5ea1b2'',
          verifyingContractAddress = ''0xe0''\<rparr>, ''0x7a'')])"
proof -
  have valid: "isValidSwapQuote exampleExternals exampleQuote"
    by (simp add: exampleExternals_def exampleQuote_def)
  have hex1: "isETHAddressHex exampleExternals ''0xc7''" and hex2: "isETHAddressHex exampleExternals ''0x7a''"
    by (simp_all add: exampleExternals_def)
  have build: "buildTransaction exampleExternals exampleQuote \<lparr>takerAddress = Some a\<rparr> =
      Inr (\<lparr>salt = 7, signerAddress = a, data = ''0x5ea1b2'',
            verifyingContractAddress = ''0xe0''\<rparr>, a)" if "take 2 a = ''0x''" for a
    using that
    by (simp add: buildTransaction_def getSmartContractParamsOrThrowAsync_def exampleExternals_def
        exampleQuote_def orderA_def orderB_def)
  from probing_copy [OF valid _ hex1, of "\<lparr>takerAddress = Some ''0xc7''\<rparr>"]
    probing_copy [OF valid _ hex2, of "\<lparr>takerAddress = Some ''0x7a''\<rparr>"]
  show ?thesis
    by (simp add: build)
       (simp add: exampleExternals_def ZeroExTransaction.defs SignedZeroExTransaction.defs)
qed

text \<open>
  C9. The copy of \<^verbatim>\<open>_getCoordinatorZeroExTransactionAsync\<close> at lines 171--234 does what the
  specification states, as shown above, and its comment at lines 204--205 says that the
  signing via the provider must be skipped for a contract. The copy at lines 410--449 does
  not: it has no probe of the taker's code. For the taker \<^verbatim>\<open>0xc7\<close>, whose address has code,
  it calls the signer once and returns the signer's signature, where the other copy
  returns the marker signature and calls no signer.
\<close>

theorem always_signing_copy_signs_for_contract_taker:
  "getContractCodeAsync exampleExternals ''0xc7'' = ''0x6080''
   \<and> getCoordinatorZeroExTransactionAsync_always_signing exampleExternals exampleQuote
        \<lparr>takerAddress = Some ''0xc7''\<rparr> =
       (Inr \<lparr>salt = 7, signerAddress = ''0xc7'', data = ''0x5ea1b2'',
             verifyingContractAddress = ''0xe0'',
             SignedZeroExTransaction.signature = ''0x1c03''\<rparr>,
        [(\<lparr>salt = 7, signerAddress = ''0xc7'', data = ''0x5ea1b2'',
            verifyingContractAddress = ''0xe0''\<rparr>, ''0xc7'')])
   \<and> getCoordinatorZeroExTransactionAsync exampleExternals exampleQuote
        \<lparr>takerAddress = Some ''0xc7''\<rparr> =
       (Inr \<lparr>salt = 7, signerAddress = ''0xc7'', data = ''0x5ea1b2'',
             verifyingContractAddress = ''0xe0'',
             SignedZeroExTransaction.signature = ''0x0004''\<rparr>, [])"
  by (simp add: getCoordinatorZeroExTransactionAsync_always_signing_def
      getCoordinatorZeroExTransactionAsync_def buildTransaction_def
      getSmartContractParamsOrThrowAsync_def exampleExternals_def exampleQuote_def
      orderA_def orderB_def ZeroExTransaction.defs SignedZeroExTransaction.defs)

text \<open>
  C10. For a valid quote, \<^verbatim>\<open>getSmartContractParamsOrThrowAsync\<close> succeeds; the signatures of
  its parameters are the signatures of the quote's orders, position by position, and the
  orders of its parameters are what the optimizer returns for the quote's orders. So the
  signatures are aligned with the orders of the parameters exactly when the optimizer leaves
  the sequence of signatures as it was.
\<close>

theorem signatures_follow_quote_orders:
  assumes "isValidSwapQuote this quote"
  shows "\<exists>info.
      getSmartContractParamsOrThrowAsync this quote = Inr info
      \<and> ExchangeSmartContractParams.signatures (params info) =
          map SignedOrder.signature (SwapQuote.orders quote)
      \<and> ExchangeSmartContractParams.orders (params info) =
          optimizeOrdersForMarketExchangeOperation this (SwapQuote.orders quote) (quote_type quote)
      \<and> (ExchangeSmartContractParams.signatures (params info) =
            map SignedOrder.signature (ExchangeSmartContractParams.orders (params info))
          \<longleftrightarrow>
          map SignedOrder.signature
            (optimizeOrdersForMarketExchangeOperation this (SwapQuote.orders quote) (quote_type quote)) =
            map SignedOrder.signature (SwapQuote.orders quote))"
  unfolding getSmartContractParams_valid [OF assms] by (cases quote) auto

theorem signatures_follow_quote_orders_witness:
  "\<exists>info.
      getSmartContractParamsOrThrowAsync exampleExternals exampleQuote = Inr info
      \<and> ExchangeSmartContractParams.signatures (params info) = [''0xa1'', ''0xb2'']
      \<and> ExchangeSmartContractParams.orders (params info) = [orderB, orderA]
      \<and> ExchangeSmartContractParams.signatures (params info) \<noteq>
          map SignedOrder.signature (ExchangeSmartContractParams.orders (params info))"
proof -
  have valid: "isValidSwapQuote exampleExternals exampleQuote"
    by (simp add: exampleExternals_def exampleQuote_def)
  from signatures_follow_quote_orders [OF valid] show ?thesis
    by (auto simp: exampleExternals_def exampleQuote_def orderA_def orderB_def)
qed

end
